theory Spec2Isabelle
  imports Main
begin

section \<open>JSON values as JavaScript sees them\<close>

text \<open>
  The relay is untyped JavaScript: request bodies and upstream replies are JSON values,
  read by property access and tested by truthiness. An object is its list of properties.
  A JavaScript number is a double: \<open>JNumber n\<close> is the double whose value is the
  integer \<open>n\<close> (a duration, a counter, an error code). A number with a fraction, and
  an integer that no double holds exactly (beyond 2 to the 53), have no value here; the
  handlers test a number for zero or pass it on unchanged and do nothing else with it.
\<close>

datatype json =
    JUndefined
  | JNull
  | JBool bool
  | JNumber int
  | JString string
  | JArray "json list"
  | JObject "(string \<times> json) list"

text \<open>Truthiness, as the conditional operator and \<open>!\<close> read a value.\<close>

fun truthy :: "json \<Rightarrow> bool" where
  "truthy JUndefined = False"
| "truthy JNull = False"
| "truthy (JBool b) = b"
| "truthy (JNumber n) = (n \<noteq> 0)"
| "truthy (JString s) = (s \<noteq> [])"
| "truthy (JArray xs) = True"
| "truthy (JObject fs) = True"

text \<open>
  Reading or destructuring a property of \<open>undefined\<close> or \<open>null\<close> throws a TypeError;
  of anything else it yields the property, or \<open>undefined\<close> when there is none. The
  properties this program reads (\<open>prompt\<close>, \<open>done\<close>, \<open>response\<close>, \<open>operation\<close>,
  \<open>name\<close>, ...) exist on objects only. A later duplicate key wins, as in JSON.parse.
\<close>

fun nullish :: "json \<Rightarrow> bool" where
  "nullish JUndefined = True"
| "nullish JNull = True"
| "nullish (JBool b) = False"
| "nullish (JNumber n) = False"
| "nullish (JString s) = False"
| "nullish (JArray xs) = False"
| "nullish (JObject fs) = False"

fun get_prop :: "json \<Rightarrow> string \<Rightarrow> json" where
  "get_prop (JObject fs) k = (case map_of (rev fs) k of None \<Rightarrow> JUndefined | Some v \<Rightarrow> v)"
| "get_prop JUndefined k = JUndefined"
| "get_prop JNull k = JUndefined"
| "get_prop (JBool b) k = JUndefined"
| "get_prop (JNumber n) k = JUndefined"
| "get_prop (JString s) k = JUndefined"
| "get_prop (JArray xs) k = JUndefined"

text \<open>A settled promise: resolved with a value, or rejected with the error's message.\<close>

datatype 'a settled = Resolved 'a | Rejected "string option"

text \<open>Decimal rendering of a non-negative integer, as a template literal prints it.\<close>

fun dec :: "nat \<Rightarrow> string" where
  "dec n = (if n < 10 then [''0123456789'' ! n]
            else dec (n div 10) @ [''0123456789'' ! (n mod 10)])"

declare dec.simps [simp del]

section \<open>The relay (Express handlers)\<close>

datatype OperationStatus = NOT_STARTED | GENERATING | RUNNING | SUCCEEDED | FAILED | FETCHING

fun status_name :: "OperationStatus \<Rightarrow> string" where
  "status_name NOT_STARTED = ''NOT_STARTED''"
| "status_name GENERATING = ''GENERATING''"
| "status_name RUNNING = ''RUNNING''"
| "status_name SUCCEEDED = ''SUCCEEDED''"
| "status_name FAILED = ''FAILED''"
| "status_name FETCHING = ''FETCHING''"

text \<open>The two environment variables the handlers read.\<close>

record env =
  GOOGLE_CLOUD_PROJECT :: string
  GOOGLE_CLOUD_LOCATION :: string

text \<open>
  What a handler does to its HTTP request: it sends one response (status code and JSON
  body), or it returns without sending any, and the request is left unanswered.
\<close>

datatype http_reply = NoResponse | Response nat json

subsection \<open>POST /api/veo/generate\<close>

definition veo_endpoint :: "env \<Rightarrow> string" where
  "veo_endpoint e =
     ''projects/'' @ GOOGLE_CLOUD_PROJECT e @ ''/locations/'' @ GOOGLE_CLOUD_LOCATION e
       @ ''/publishers/google/models/veo-3.0-generate-preview''"

text \<open>The \<open>request\<close> object literal of the handler, from the destructured body fields.\<close>

definition generate_request :: "env \<Rightarrow> json \<Rightarrow> json \<Rightarrow> json \<Rightarrow> json \<Rightarrow> json" where
  "generate_request e prompt aspectRatio durationSeconds generateAudio =
     JObject
       [(''endpoint'', JString (veo_endpoint e)),
        (''instances'',
           JArray
             [JObject
                [(''prompt'', prompt),
                 (''parameters'',
                    JObject
                      [(''aspectRatio'', aspectRatio),
                       (''durationSeconds'', durationSeconds),
                       (''generateAudio'', generateAudio)])]])]"

text \<open>
  \<open>response.response.operation?.name\<close>: \<open>None\<close> is the TypeError of reading through
  an absent \<open>response\<close>; an absent \<open>operation\<close> gives \<open>undefined\<close>.
\<close>

definition operation_name :: "json \<Rightarrow> json option" where
  "operation_name response =
     (if nullish response then None
      else if nullish (get_prop response ''response'') then None
      else if nullish (get_prop (get_prop response ''response'') ''operation'')
        then Some JUndefined
      else Some (get_prop (get_prop (get_prop response ''response'') ''operation'') ''name''))"

text \<open>
  The handler up to its upstream call: an early reply, or the \<open>request\<close> object it
  passes to \<open>generativeModel.generateContent\<close>. Destructuring a missing body throws
  inside the \<open>try\<close>, and the \<open>catch\<close> logs and sends nothing.
\<close>

definition generate_prepare :: "env \<Rightarrow> json \<Rightarrow> http_reply + json" where
  "generate_prepare e body =
     (if nullish body then Inl NoResponse
      else if \<not> truthy (get_prop body ''prompt'')
        then Inl (Response 400 (JObject [(''message'', JString ''Prompt is required'')]))
      else Inr (generate_request e (get_prop body ''prompt'') (get_prop body ''aspectRatio'')
                  (get_prop body ''durationSeconds'') (get_prop body ''generateAudio'')))"

text \<open>
  The handler after the upstream call has settled. A rejection, and the TypeError of
  reading through a missing \<open>response\<close>, reach the same \<open>catch\<close>.
\<close>

definition generate_finish :: "json settled \<Rightarrow> http_reply" where
  "generate_finish outcome =
     (case outcome of
        Rejected m \<Rightarrow> NoResponse
      | Resolved response \<Rightarrow>
          (case operation_name response of
             None \<Rightarrow> NoResponse
           | Some operationId \<Rightarrow>
               if \<not> truthy operationId
                 then Response 500
                        (JObject [(''message'', JString ''Failed to initiate video generation'')])
               else Response 200 (JObject [(''operationId'', operationId)])))"

text \<open>The whole handler, with the upstream call as a parameter.\<close>

definition generate_handler :: "env \<Rightarrow> (json \<Rightarrow> json settled) \<Rightarrow> json \<Rightarrow> http_reply" where
  "generate_handler e generateContent body =
     (case generate_prepare e body of
        Inl reply \<Rightarrow> reply
      | Inr request \<Rightarrow> generate_finish (generateContent request))"

subsection \<open>GET /api/veo/status/:operationId\<close>

definition status_url :: "env \<Rightarrow> string \<Rightarrow> string" where
  "status_url e operationId =
     ''https://'' @ GOOGLE_CLOUD_LOCATION e @ ''-aiplatform.googleapis.com/v1/'' @ operationId"

text \<open>The nested conditional that turns the operation's fields into a status.\<close>

definition status_of :: "json \<Rightarrow> json \<Rightarrow> OperationStatus" where
  "status_of done opResponse =
     (if truthy done then (if truthy opResponse then SUCCEEDED else FAILED) else RUNNING)"

definition jobDetails :: "nat \<Rightarrow> string \<Rightarrow> OperationStatus \<Rightarrow> json" where
  "jobDetails now operationId st =
     JObject
       [(''id'', JString (''job_'' @ dec now)),
        (''operationId'', JString operationId),
        (''status'', JString (status_name st))]"

text \<open>
  The handler, with the clock (\<open>Date.now()\<close>), the outcome of \<open>getAccessToken\<close> and
  \<open>axios.get\<close> (url and bearer token to \<open>response.data\<close>) as parameters. The \<open>error\<close>
  field is destructured from the data and not read again.
\<close>

definition status_handler ::
  "env \<Rightarrow> nat \<Rightarrow> string settled \<Rightarrow> (string \<Rightarrow> string \<Rightarrow> json settled) \<Rightarrow> string \<Rightarrow> http_reply"
where
  "status_handler e now getAccessToken axios_get operationId =
     (case getAccessToken of
        Rejected m \<Rightarrow> NoResponse
      | Resolved token \<Rightarrow>
          (case axios_get (status_url e operationId) (''Bearer '' @ token) of
             Rejected m \<Rightarrow> NoResponse
           | Resolved data \<Rightarrow>
               if nullish data then NoResponse
               else Response 200
                      (jobDetails now operationId
                         (status_of (get_prop data ''done'') (get_prop data ''response'')))))"

section \<open>The client (the React component App)\<close>

subsection \<open>Job data\<close>

text \<open>
  The two interfaces of the types module. A field that may be null is an option; the
  field \<open>id\<close> is \<open>job_id\<close> here, \<open>id\<close> being the identity function.
\<close>

record VideoGenerationParams =
  prompt :: string
  imageBase64 :: "string option"
  mimeType :: "string option"
  aspectRatio :: string
  durationSeconds :: int
  generateAudio :: bool

record VideoJobDetails = VideoGenerationParams +
  job_id :: string
  operationId :: "string option"
  status :: OperationStatus
  videoBase64 :: "string option"
  errorMessage :: "string option"
  progress :: "nat option"

text \<open>
  The defaults imported from the constants module, which the component only reads; the
  polling period is a duration and has no counterpart here.
\<close>

record constants =
  DEFAULT_ASPECT_RATIO :: string
  DEFAULT_DURATION_SECONDS :: int
  DEFAULT_GENERATE_AUDIO :: bool

subsection \<open>Component state, timers and calls in flight\<close>

text \<open>
  A status request is awaited either by the interval callback or by the manual handler;
  their continuations differ.
\<close>

datatype origin = Auto | Manual

text \<open>
  The component reaches the relay through three imported service functions
  (\<open>initiateVideoGeneration\<close>, \<open>fetchVideoStatus\<close>, \<open>cancelVideoGeneration\<close>) and
  sees each call as a promise. A call that has been made and not yet settled is kept with
  what its continuation still holds from the moment of the call: the parameters of a
  start call, the operation id of a status or cancel call, the mime type of a file being
  read.
\<close>

datatype call =
    InitiateCall VideoGenerationParams
  | StatusCall origin string
  | CancelCall string
  | ReadCall string

text \<open>
  A live interval of the runtime: its handle, and the values its callback closed over
  when the effect created it (the job's operation id and the flag \<open>isFetchingStatus\<close>).
\<close>

record interval =
  handle :: nat
  seen_operationId :: string
  seen_isFetchingStatus :: bool

text \<open>
  The state hooks of the component under their own names (the three form parameters with
  a suffix, since the job record has fields of the same names), the ref, and what the
  runtime holds: live intervals and calls in flight. \<open>currentJob_ref\<close> stands for the
  identity of the object in \<open>currentJob\<close>, which the effect's dependency check compares.
\<close>

record app =
  currentJob :: "VideoJobDetails option"
  currentJob_ref :: nat
  currentPrompt :: string
  initialImage :: "(string option \<times> string) option"
  aspectRatio_sel :: string
  duration :: int
  generateAudio_sel :: bool
  isLoading :: bool
  isFetchingStatus :: bool
  error :: "string option"
  pollingIntervalRef :: "nat option"
  intervals :: "interval list"
  next_handle :: nat
  awaiting :: "(nat \<times> call) list"
  next_call :: nat
  mounted :: bool

definition initial :: "constants \<Rightarrow> app" where
  "initial K =
     \<lparr>currentJob = None, currentJob_ref = 0, currentPrompt = [], initialImage = None,
      aspectRatio_sel = DEFAULT_ASPECT_RATIO K, duration = DEFAULT_DURATION_SECONDS K,
      generateAudio_sel = DEFAULT_GENERATE_AUDIO K, isLoading = False,
      isFetchingStatus = False, error = None, pollingIntervalRef = None, intervals = [],
      next_handle = 1, awaiting = [], next_call = 0, mounted = True\<rparr>"

definition setCurrentJob :: "VideoJobDetails option \<Rightarrow> app \<Rightarrow> app" where
  "setCurrentJob v s =
     s\<lparr>currentJob := v,
       currentJob_ref := (case v of None \<Rightarrow> currentJob_ref s | Some j \<Rightarrow> Suc (currentJob_ref s))\<rparr>"

definition issue :: "call \<Rightarrow> app \<Rightarrow> app" where
  "issue c s = s\<lparr>awaiting := awaiting s @ [(next_call s, c)], next_call := Suc (next_call s)\<rparr>"

definition settle :: "nat \<Rightarrow> app \<Rightarrow> app" where
  "settle r s = s\<lparr>awaiting := filter (\<lambda>p. fst p \<noteq> r) (awaiting s)\<rparr>"

text \<open>\<open>e.message || d\<close>: the default stands in for a missing or empty message.\<close>

definition message_or :: "string option \<Rightarrow> string \<Rightarrow> string" where
  "message_or m d = (case m of None \<Rightarrow> d | Some t \<Rightarrow> if t = [] then d else t)"

text \<open>
  \<open>!currentPrompt.trim()\<close>: nothing is left once the white space is trimmed, that is,
  the prompt is made of white space only. Strings are held as their UTF-8 bytes, and
  \<open>trim\<close> strips the code points of WhiteSpace and LineTerminator: U+0009 to U+000D,
  U+0020, U+00A0, U+1680, U+2000 to U+200A, U+2028, U+2029, U+202F, U+205F, U+3000 and
  U+FEFF. These are their encodings.
\<close>

definition white_space :: "string list" where
  "white_space =
     [[CHR 0x09], [CHR 0x0A], [CHR 0x0B], [CHR 0x0C], [CHR 0x0D], [CHR 0x20],
      [CHR 0xC2, CHR 0xA0],
      [CHR 0xE1, CHR 0x9A, CHR 0x80],
      [CHR 0xE2, CHR 0x80, CHR 0x80], [CHR 0xE2, CHR 0x80, CHR 0x81],
      [CHR 0xE2, CHR 0x80, CHR 0x82], [CHR 0xE2, CHR 0x80, CHR 0x83],
      [CHR 0xE2, CHR 0x80, CHR 0x84], [CHR 0xE2, CHR 0x80, CHR 0x85],
      [CHR 0xE2, CHR 0x80, CHR 0x86], [CHR 0xE2, CHR 0x80, CHR 0x87],
      [CHR 0xE2, CHR 0x80, CHR 0x88], [CHR 0xE2, CHR 0x80, CHR 0x89],
      [CHR 0xE2, CHR 0x80, CHR 0x8A],
      [CHR 0xE2, CHR 0x80, CHR 0xA8], [CHR 0xE2, CHR 0x80, CHR 0xA9],
      [CHR 0xE2, CHR 0x80, CHR 0xAF],
      [CHR 0xE2, CHR 0x81, CHR 0x9F],
      [CHR 0xE3, CHR 0x80, CHR 0x80],
      [CHR 0xEF, CHR 0xBB, CHR 0xBF]]"

text \<open>
  Reading the bytes in order: \<open>pending\<close> holds the bytes of a code point begun and not yet
  complete. A byte either completes a white-space code point, or continues one, or shows
  that the string holds something else.
\<close>

fun blank_after :: "string \<Rightarrow> string \<Rightarrow> bool" where
  "blank_after pending [] = (pending = [])"
| "blank_after pending (c # cs) =
     (if List.member white_space (pending @ [c]) then blank_after [] cs
      else if list_ex (\<lambda>w. take (Suc (length pending)) w = pending @ [c]) white_space
        then blank_after (pending @ [c]) cs
      else False)"

definition is_blank :: "string \<Rightarrow> bool" where
  "is_blank t = blank_after [] t"

subsection \<open>The polling effect\<close>

definition clearPollingInterval :: "app \<Rightarrow> app" where
  "clearPollingInterval s =
     (case pollingIntervalRef s of
        None \<Rightarrow> s
      | Some h \<Rightarrow>
          s\<lparr>intervals := filter (\<lambda>t. handle t \<noteq> h) (intervals s), pollingIntervalRef := None\<rparr>)"

text \<open>
  The condition \<open>currentJob && currentJob.operationId && (status is RUNNING or GENERATING)\<close>
  of the effect and of \<open>handleClearJob\<close>; where it holds, the operation id.
\<close>

definition poll_target :: "VideoJobDetails option \<Rightarrow> string option" where
  "poll_target job =
     (case job of
        None \<Rightarrow> None
      | Some j \<Rightarrow>
          (case operationId j of
             None \<Rightarrow> None
           | Some oid \<Rightarrow>
               if oid \<noteq> [] \<and> (status j = RUNNING \<or> status j = GENERATING) then Some oid
               else None))"

text \<open>
  One run of the effect: the cleanup returned by the previous run, then the body, which
  either clears and creates an interval whose callback sees the state of this render, or
  only clears.
\<close>

definition polling_effect :: "app \<Rightarrow> app" where
  "polling_effect s =
     (let s1 = clearPollingInterval s in
      case poll_target (currentJob s1) of
        Some oid \<Rightarrow>
          (let s2 = clearPollingInterval s1 in
           s2\<lparr>intervals :=
                 intervals s2 @
                   [\<lparr>handle = next_handle s2, seen_operationId = oid,
                     seen_isFetchingStatus = isFetchingStatus s2\<rparr>],
               next_handle := Suc (next_handle s2),
               pollingIntervalRef := Some (next_handle s2)\<rparr>)
      | None \<Rightarrow> clearPollingInterval s1)"

text \<open>The dependencies that change: the job object and the flag.\<close>

definition effect_deps :: "app \<Rightarrow> nat option \<times> bool" where
  "effect_deps s =
     ((case currentJob s of None \<Rightarrow> None | Some j \<Rightarrow> Some (currentJob_ref s)),
      isFetchingStatus s)"

text \<open>
  The state updates of one synchronous stretch of code (a handler up to its \<open>await\<close>, or
  a continuation after it) are committed together; the effect runs if a dependency
  changed. \<open>s\<close> is the state of the last render, \<open>s'\<close> the state with the updates. Once
  the component is unmounted its state updates are dropped and no effect runs; what the
  code did to the ref, the runtime's intervals and the calls in flight stays.
\<close>

definition commit :: "app \<Rightarrow> app \<Rightarrow> app" where
  "commit s s' =
     (if mounted s then (if effect_deps s' = effect_deps s then s' else polling_effect s')
      else s\<lparr>pollingIntervalRef := pollingIntervalRef s', intervals := intervals s',
             awaiting := awaiting s', next_call := next_call s'\<rparr>)"

text \<open>The interval callback up to its \<open>await\<close>, and from there on.\<close>

definition interval_callback :: "interval \<Rightarrow> app \<Rightarrow> app" where
  "interval_callback t s =
     (if seen_isFetchingStatus t then s
      else issue (StatusCall Auto (seen_operationId t)) (s\<lparr>isFetchingStatus := True, error := None\<rparr>))"

definition interval_callback_resume :: "VideoJobDetails settled \<Rightarrow> app \<Rightarrow> app" where
  "interval_callback_resume outcome s =
     (case outcome of
        Resolved updatedJob \<Rightarrow>
          (let s1 = setCurrentJob (Some updatedJob) s;
               s2 = (if status updatedJob = SUCCEEDED \<or> status updatedJob = FAILED
                     then (clearPollingInterval s1)\<lparr>isLoading := False\<rparr> else s1)
           in s2\<lparr>isFetchingStatus := False\<rparr>)
      | Rejected m \<Rightarrow>
          (clearPollingInterval
             (s\<lparr>error := Some (message_or m ''Failed to fetch video status from backend.'')\<rparr>))
            \<lparr>isLoading := False, isFetchingStatus := False\<rparr>)"

subsection \<open>The handlers\<close>

definition handleImageUpload :: "string \<Rightarrow> app \<Rightarrow> app" where
  "handleImageUpload file_type s =
     (if take 6 file_type \<noteq> ''image/''
        then s\<lparr>error := Some ''Please upload a valid image file (JPEG, PNG, GIF, WEBP).''\<rparr>
      else issue (ReadCall file_type) s)"

text \<open>
  The end of the read. A FileReader that fails fires \<open>error\<close> and then \<open>loadend\<close>,
  with a null result; one that succeeds fires \<open>loadend\<close> alone. So \<open>onerror\<close> runs
  first in the failing case, and \<open>onloadend\<close> runs in both.
\<close>

definition handleImageUpload_resume :: "string \<Rightarrow> string option \<Rightarrow> app \<Rightarrow> app" where
  "handleImageUpload_resume file_type result s =
     (let s1 = (case result of
                  Some base64 \<Rightarrow> s
                | None \<Rightarrow> s\<lparr>error := Some ''Failed to read the image file.''\<rparr>)
      in s1\<lparr>initialImage := Some (result, file_type), error := None\<rparr>)"

definition handleInitiateVideo :: "app \<Rightarrow> app" where
  "handleInitiateVideo s =
     (if is_blank (currentPrompt s) then s\<lparr>error := Some ''Prompt cannot be empty.''\<rparr>
      else if isLoading s then s
      else
        issue
          (InitiateCall
             \<lparr>prompt = currentPrompt s,
              imageBase64 =
                (case initialImage s of
                   None \<Rightarrow> None
                 | Some (base64, mt) \<Rightarrow> if base64 = Some [] then None else base64),
              mimeType =
                (case initialImage s of
                   None \<Rightarrow> None
                 | Some (base64, mt) \<Rightarrow> if mt = [] then None else Some mt),
              aspectRatio = aspectRatio_sel s, durationSeconds = duration s,
              generateAudio = generateAudio_sel s\<rparr>)
          (clearPollingInterval (setCurrentJob None (s\<lparr>isLoading := True, error := None\<rparr>))))"

definition handleInitiateVideo_resume ::
  "VideoGenerationParams \<Rightarrow> string settled \<Rightarrow> nat \<Rightarrow> app \<Rightarrow> app"
where
  "handleInitiateVideo_resume params outcome now s =
     (case outcome of
        Resolved oid \<Rightarrow>
          setCurrentJob
            (Some
               \<lparr>prompt = prompt params, imageBase64 = imageBase64 params,
                mimeType = mimeType params, aspectRatio = aspectRatio params,
                durationSeconds = durationSeconds params, generateAudio = generateAudio params,
                job_id = ''job_'' @ dec now, operationId = Some oid, status = GENERATING,
                videoBase64 = None, errorMessage = None, progress = Some 0\<rparr>)
            s
      | Rejected m \<Rightarrow>
          s\<lparr>error := Some (message_or m ''Failed to initiate video generation via backend.''),
            isLoading := False\<rparr>)"

definition handleFetchStatusManual :: "app \<Rightarrow> app" where
  "handleFetchStatusManual s =
     (case currentJob s of
        None \<Rightarrow> s
      | Some j \<Rightarrow>
          (case operationId j of
             None \<Rightarrow> s
           | Some oid \<Rightarrow>
               if oid = [] \<or> isLoading s \<or> isFetchingStatus s then s
               else issue (StatusCall Manual oid) (s\<lparr>isFetchingStatus := True, error := None\<rparr>)))"

definition handleFetchStatusManual_resume :: "VideoJobDetails settled \<Rightarrow> app \<Rightarrow> app" where
  "handleFetchStatusManual_resume outcome s =
     (case outcome of
        Resolved updatedJob \<Rightarrow>
          (let s1 = setCurrentJob (Some updatedJob) s;
               s2 = (if status updatedJob = SUCCEEDED \<or> status updatedJob = FAILED
                     then (clearPollingInterval s1)\<lparr>isLoading := False\<rparr> else s1)
           in s2\<lparr>isFetchingStatus := False\<rparr>)
      | Rejected m \<Rightarrow>
          s\<lparr>error := Some (message_or m ''Failed to fetch video status from backend.''),
            isFetchingStatus := False\<rparr>)"

text \<open>The statements of \<open>handleClearJob\<close> after its conditional.\<close>

definition clear_locally :: "constants \<Rightarrow> app \<Rightarrow> app" where
  "clear_locally K s =
     (setCurrentJob None (clearPollingInterval s))
       \<lparr>currentPrompt := [], initialImage := None,
        aspectRatio_sel := DEFAULT_ASPECT_RATIO K, duration := DEFAULT_DURATION_SECONDS K,
        generateAudio_sel := DEFAULT_GENERATE_AUDIO K, error := None, isLoading := False,
        isFetchingStatus := False\<rparr>"

text \<open>
  \<open>handleClearJob\<close> up to its \<open>await\<close>: with a job to cancel it makes the cancel call and
  stops there; with none it runs through.
\<close>

definition handleClearJob :: "constants \<Rightarrow> app \<Rightarrow> app" where
  "handleClearJob K s =
     (case poll_target (currentJob s) of
        Some oid \<Rightarrow> issue (CancelCall oid) (s\<lparr>isLoading := True, error := None\<rparr>)
      | None \<Rightarrow> clear_locally K s)"

text \<open>From the settled cancel call on: \<open>catch\<close>, \<open>finally\<close>, and the statements after.\<close>

definition handleClearJob_resume :: "constants \<Rightarrow> unit settled \<Rightarrow> app \<Rightarrow> app" where
  "handleClearJob_resume K outcome s =
     clear_locally K
       ((case outcome of
           Resolved u \<Rightarrow> s
         | Rejected m \<Rightarrow>
             s\<lparr>error :=
                 Some (''Failed to request cancellation from backend: ''
                       @ (case m of None \<Rightarrow> ''undefined'' | Some t \<Rightarrow> t)
                       @ ''. Clearing job locally.'')\<rparr>)
        \<lparr>isLoading := False\<rparr>)"

subsection \<open>The \<open>disabled\<close> attributes of the three buttons\<close>

definition generate_disabled :: "app \<Rightarrow> bool" where
  "generate_disabled s = (isLoading s \<or> is_blank (currentPrompt s))"

definition fetch_disabled :: "app \<Rightarrow> bool" where
  "fetch_disabled s =
     (isLoading s \<or> isFetchingStatus s \<or>
      (case currentJob s of
         None \<Rightarrow> True
       | Some j \<Rightarrow>
           (case operationId j of None \<Rightarrow> True | Some oid \<Rightarrow> oid = []) \<or>
           status j = SUCCEEDED \<or> status j = FAILED))"

definition clear_disabled :: "app \<Rightarrow> bool" where
  "clear_disabled s =
     (isLoading s \<and>
      (case currentJob s of None \<Rightarrow> False | Some j \<Rightarrow> status j = GENERATING \<or> status j = RUNNING))"

subsection \<open>Events\<close>

text \<open>
  What can happen to the component: the user acts on the form or a button, an interval
  fires, a call in flight settles, the component is unmounted. A call settles under the
  number it was issued with; a start call settles at a clock reading.
\<close>

datatype event =
    ChangePrompt string
  | ChooseImage string
  | FileRead nat "string option"
  | ChangeAspectRatio string
  | ChangeDuration int
  | ChangeGenerateAudio bool
  | ClearError
  | ClickGenerate
  | ClickFetchStatus
  | ClickClear
  | Tick nat
  | InitiateSettled nat "string settled" nat
  | StatusSettled nat "VideoJobDetails settled"
  | CancelSettled nat "unit settled"
  | Unmount

fun step :: "constants \<Rightarrow> event \<Rightarrow> app \<Rightarrow> app" where
  "step K (ChangePrompt p) s =
     (if mounted s \<and> \<not> isLoading s then commit s (s\<lparr>currentPrompt := p\<rparr>) else s)"
| "step K (ChooseImage file_type) s =
     (if mounted s \<and> \<not> isLoading s then commit s (handleImageUpload file_type s) else s)"
| "step K (FileRead r result) s =
     (case map_of (awaiting s) r of
        Some (ReadCall file_type) \<Rightarrow>
          commit s (handleImageUpload_resume file_type result (settle r s))
      | _ \<Rightarrow> s)"
| "step K (ChangeAspectRatio a) s =
     (if mounted s \<and> \<not> isLoading s then commit s (s\<lparr>aspectRatio_sel := a\<rparr>) else s)"
| "step K (ChangeDuration d) s =
     (if mounted s \<and> \<not> isLoading s then commit s (s\<lparr>duration := d\<rparr>) else s)"
| "step K (ChangeGenerateAudio g) s =
     (if mounted s \<and> \<not> isLoading s then commit s (s\<lparr>generateAudio_sel := g\<rparr>) else s)"
| "step K ClearError s = (if mounted s then commit s (s\<lparr>error := None\<rparr>) else s)"
| "step K ClickGenerate s =
     (if mounted s \<and> \<not> generate_disabled s then commit s (handleInitiateVideo s) else s)"
| "step K ClickFetchStatus s =
     (if mounted s \<and> \<not> fetch_disabled s then commit s (handleFetchStatusManual s) else s)"
| "step K ClickClear s =
     (if mounted s \<and> \<not> clear_disabled s then commit s (handleClearJob K s) else s)"
| "step K (Tick h) s =
     (case find (\<lambda>t. handle t = h) (intervals s) of
        None \<Rightarrow> s
      | Some t \<Rightarrow> commit s (interval_callback t s))"
| "step K (InitiateSettled r outcome now) s =
     (case map_of (awaiting s) r of
        Some (InitiateCall params) \<Rightarrow>
          commit s (handleInitiateVideo_resume params outcome now (settle r s))
      | _ \<Rightarrow> s)"
| "step K (StatusSettled r outcome) s =
     (case map_of (awaiting s) r of
        Some (StatusCall Auto oid) \<Rightarrow> commit s (interval_callback_resume outcome (settle r s))
      | Some (StatusCall Manual oid) \<Rightarrow>
          commit s (handleFetchStatusManual_resume outcome (settle r s))
      | _ \<Rightarrow> s)"
| "step K (CancelSettled r outcome) s =
     (case map_of (awaiting s) r of
        Some (CancelCall oid) \<Rightarrow> commit s (handleClearJob_resume K outcome (settle r s))
      | _ \<Rightarrow> s)"
| "step K Unmount s = (if mounted s then (clearPollingInterval s)\<lparr>mounted := False\<rparr> else s)"

text \<open>A session: the events in order, from a given state.\<close>

fun run :: "constants \<Rightarrow> app \<Rightarrow> event list \<Rightarrow> app" where
  "run K s [] = s"
| "run K s (ev # evs) = run K (step K ev s) evs"

text \<open>The status requests in flight, by operation id.\<close>

definition status_requests :: "app \<Rightarrow> string list" where
  "status_requests s =
     concat (map (\<lambda>p. case snd p of StatusCall og oid \<Rightarrow> [oid] | _ \<Rightarrow> []) (awaiting s))"

section \<open>The timer invariant\<close>

text \<open>
  The ref names every live interval: the runtime holds no interval but the one whose
  handle is in \<open>pollingIntervalRef\<close>, and none once the component is unmounted.
\<close>

definition timers_tracked :: "app \<Rightarrow> bool" where
  "timers_tracked s =
     (map handle (intervals s) = (case pollingIntervalRef s of None \<Rightarrow> [] | Some h \<Rightarrow> [h])
      \<and> (mounted s \<or> intervals s = []))"

text \<open>A stretch of handler code leaves the timer alone or clears it.\<close>

definition timer_safe :: "app \<Rightarrow> app \<Rightarrow> bool" where
  "timer_safe s s' =
     (mounted s' = mounted s \<and>
      (intervals s' = intervals s \<and> pollingIntervalRef s' = pollingIntervalRef s \<or>
       intervals s' = intervals (clearPollingInterval s) \<and> pollingIntervalRef s' = None))"



section \<open>Scenarios\<close>

text \<open>Concrete constants, jobs, upstream replies and request bodies.\<close>

definition K0 :: constants where
  "K0 =
     \<lparr>DEFAULT_ASPECT_RATIO = ''16:9'', DEFAULT_DURATION_SECONDS = 8,
      DEFAULT_GENERATE_AUDIO = True\<rparr>"

definition env0 :: env where
  "env0 =
     \<lparr>GOOGLE_CLOUD_PROJECT = ''clairos-agent-core'', GOOGLE_CLOUD_LOCATION = ''us-central1''\<rparr>"

definition running1 :: VideoJobDetails where
  "running1 =
     \<lparr>prompt = ''a cat'', imageBase64 = None, mimeType = None, aspectRatio = ''16:9'',
      durationSeconds = 8, generateAudio = True, job_id = ''job_5'',
      operationId = Some ''op_1'', status = RUNNING, videoBase64 = None, errorMessage = None,
      progress = None\<rparr>"

definition succeeded1 :: VideoJobDetails where
  "succeeded1 = running1\<lparr>status := SUCCEEDED\<rparr>"

text \<open>
  A session: the user enters a prompt and starts a job, the relay returns \<open>op_1\<close>, and the
  effect creates the interval with handle 1.
\<close>

definition session_started :: "event list" where
  "session_started =
     [ChangePrompt ''a cat'', ClickGenerate, InitiateSettled 0 (Resolved ''op_1'') 1]"

text \<open>The first poll finds the job running and succeeded, respectively.\<close>

definition session_polling :: "event list" where
  "session_polling = session_started @ [Tick 1]"


text \<open>The first poll finds the job running; the second fails in transport.\<close>

definition session_failed_poll :: "event list" where
  "session_failed_poll =
     session_polling @
       [StatusSettled 1 (Resolved running1), Tick 3,
        StatusSettled 2 (Rejected (Some ''Network Error''))]"

text \<open>The user then asks to clear the job; the cancel call is in flight.\<close>

definition session_cancelling :: "event list" where
  "session_cancelling = session_failed_poll @ [ClickClear]"

text \<open>
  Instead, a third poll goes out (call 3), and while it is in flight the user clears the
  job; the cancel call fails, so the operation keeps running upstream.
\<close>

definition session_cancelled :: "event list" where
  "session_cancelled =
     session_failed_poll @
       [Tick 5, ClickClear, CancelSettled 4 (Rejected (Some ''Network Error''))]"

text \<open>The user starts a second job, \<open>op_2\<close>, and its first poll goes out (call 6).\<close>

definition session_replaced :: "event list" where
  "session_replaced =
     session_cancelled @
       [ChangePrompt ''a dog'', ClickGenerate, InitiateSettled 5 (Resolved ''op_2'') 2, Tick 7]"

text \<open>
  The reply to call 3 arrives and reports \<open>op_1\<close> running; the next tick polls \<open>op_1\<close>
  (call 7); call 6 fails in transport; the next tick polls \<open>op_1\<close> again (call 8).
\<close>

definition session_overlap :: "event list" where
  "session_overlap =
     session_replaced @
       [StatusSettled 3 (Resolved running1), Tick 9,
        StatusSettled 6 (Rejected (Some ''Network Error'')), Tick 11]"

text \<open>Upstream operations as the status endpoint reads them: finished with a video, finished
  with an error, still running.\<close>

definition operation_done_video :: json where
  "operation_done_video =
     JObject
       [(''name'', JString ''op_1''), (''done'', JBool True),
        (''response'',
           JObject
             [(''videos'',
                 JArray [JObject [(''bytesBase64Encoded'', JString ''AAAAIGZ0eXBpc29t'')]])])]"

definition operation_done_error :: json where
  "operation_done_error =
     JObject
       [(''name'', JString ''op_1''), (''done'', JBool True),
        (''error'', JObject [(''code'', JNumber 8), (''message'', JString ''quota exceeded'')])]"

definition operation_running :: json where
  "operation_running = JObject [(''name'', JString ''op_1'')]"


definition body_without_image :: json where
  "body_without_image =
     JObject
       [(''prompt'', JString ''a cat''), (''imageBase64'', JNull), (''mimeType'', JNull),
        (''aspectRatio'', JString ''16:9''), (''durationSeconds'', JNumber 8),
        (''generateAudio'', JBool True)]"

definition upstream_started :: "json \<Rightarrow> json settled" where
  "upstream_started request =
     Resolved
       (JObject [(''response'', JObject [(''operation'', JObject [(''name'', JString ''op_1'')])])])"

section \<open>The timer invariant holds in every session\<close>

lemma filter_single_handle:
  "map handle ts = [h] \<Longrightarrow> filter (\<lambda>t. handle t \<noteq> h) ts = []"
  by (cases ts) auto

lemma clear_intervals:
  "timers_tracked s \<Longrightarrow> intervals (clearPollingInterval s) = []"
  by (auto simp: timers_tracked_def clearPollingInterval_def filter_single_handle
      split: option.splits)

lemma clear_ref [simp]: "pollingIntervalRef (clearPollingInterval s) = None"
  by (simp add: clearPollingInterval_def split: option.splits)

lemma clear_fields [simp]:
  "currentJob (clearPollingInterval s) = currentJob s"
  "currentJob_ref (clearPollingInterval s) = currentJob_ref s"
  "isFetchingStatus (clearPollingInterval s) = isFetchingStatus s"
  "isLoading (clearPollingInterval s) = isLoading s"
  "mounted (clearPollingInterval s) = mounted s"
  "awaiting (clearPollingInterval s) = awaiting s"
  "next_call (clearPollingInterval s) = next_call s"
  "next_handle (clearPollingInterval s) = next_handle s"
  "error (clearPollingInterval s) = error s"
  by (simp_all add: clearPollingInterval_def split: option.splits)

lemma clear_idem:
  "intervals s = [] \<Longrightarrow> intervals (clearPollingInterval s) = []"
  by (simp add: clearPollingInterval_def split: option.splits)

lemma effect_tracked:
  assumes "timers_tracked s" "mounted s"
  shows "timers_tracked (polling_effect s)"
proof -
  have a: "intervals (clearPollingInterval s) = []" using assms(1) by (rule clear_intervals)
  have b: "intervals (clearPollingInterval (clearPollingInterval s)) = []"
    using a by (rule clear_idem)
  show ?thesis
    using a b assms(2)
    by (simp add: polling_effect_def timers_tracked_def Let_def split: option.splits)
qed


lemma effect_fields [simp]:
  "currentJob (polling_effect s) = currentJob s"
  "isFetchingStatus (polling_effect s) = isFetchingStatus s"
  "isLoading (polling_effect s) = isLoading s"
  "mounted (polling_effect s) = mounted s"
  "awaiting (polling_effect s) = awaiting s"
  "error (polling_effect s) = error s"
  by (simp_all add: polling_effect_def Let_def split: option.splits)

lemma commit_tracked:
  assumes "timers_tracked s" "timers_tracked s'" "mounted s' = mounted s"
  shows "timers_tracked (commit s s')"
proof (cases "mounted s")
  case True
  then show ?thesis using assms effect_tracked [of s'] by (simp add: commit_def)
next
  case False
  then show ?thesis using assms by (auto simp: commit_def timers_tracked_def)
qed

lemma timer_safe_tracked:
  "timers_tracked s \<Longrightarrow> timer_safe s s' \<Longrightarrow> timers_tracked s'"
  using clear_intervals [of s] by (auto simp: timer_safe_def timers_tracked_def)

lemma safe_interval_callback: "timer_safe s (interval_callback t s)"
  by (auto simp: timer_safe_def clearPollingInterval_def interval_callback_def issue_def
      split: option.splits)

lemma safe_interval_callback_resume: "timer_safe s (interval_callback_resume out (settle r s))"
  by (auto simp: timer_safe_def clearPollingInterval_def interval_callback_resume_def
      settle_def setCurrentJob_def Let_def split: settled.splits option.splits)

lemma safe_manual: "timer_safe s (handleFetchStatusManual s)"
  by (auto simp: timer_safe_def clearPollingInterval_def handleFetchStatusManual_def
      issue_def split: option.splits)

lemma safe_manual_resume: "timer_safe s (handleFetchStatusManual_resume out (settle r s))"
  by (auto simp: timer_safe_def clearPollingInterval_def handleFetchStatusManual_resume_def
      settle_def setCurrentJob_def Let_def split: settled.splits option.splits)

lemma safe_initiate: "timer_safe s (handleInitiateVideo s)"
  by (auto simp: timer_safe_def clearPollingInterval_def handleInitiateVideo_def issue_def
      setCurrentJob_def split: option.splits)

lemma safe_initiate_resume: "timer_safe s (handleInitiateVideo_resume ps out now (settle r s))"
  by (auto simp: timer_safe_def clearPollingInterval_def handleInitiateVideo_resume_def
      settle_def setCurrentJob_def split: settled.splits option.splits)

lemma safe_clear: "timer_safe s (handleClearJob K s)"
  by (auto simp: timer_safe_def clearPollingInterval_def handleClearJob_def
      clear_locally_def issue_def setCurrentJob_def split: option.splits)

lemma safe_clear_resume: "timer_safe s (handleClearJob_resume K out (settle r s))"
  by (auto simp: timer_safe_def clearPollingInterval_def handleClearJob_resume_def
      clear_locally_def settle_def setCurrentJob_def split: settled.splits option.splits)

lemma safe_upload: "timer_safe s (handleImageUpload ft s)"
  by (auto simp: timer_safe_def clearPollingInterval_def handleImageUpload_def issue_def
      split: option.splits)

lemma safe_upload_resume: "timer_safe s (handleImageUpload_resume ft res (settle r s))"
  by (auto simp: timer_safe_def clearPollingInterval_def handleImageUpload_resume_def
      settle_def Let_def split: option.splits)

lemma safe_form:
  "timer_safe s (s\<lparr>currentPrompt := p\<rparr>)"
  "timer_safe s (s\<lparr>aspectRatio_sel := a\<rparr>)"
  "timer_safe s (s\<lparr>duration := d\<rparr>)"
  "timer_safe s (s\<lparr>generateAudio_sel := g\<rparr>)"
  "timer_safe s (s\<lparr>error := e\<rparr>)"
  by (simp_all add: timer_safe_def)

lemmas segment_safe =
  safe_form safe_interval_callback safe_interval_callback_resume safe_manual safe_manual_resume
  safe_initiate safe_initiate_resume safe_clear safe_clear_resume safe_upload safe_upload_resume

lemma commit_safe_tracked:
  assumes "timers_tracked s" "timer_safe s s'"
  shows "timers_tracked (commit s s')"
proof -
  have "timers_tracked s'" using assms by (rule timer_safe_tracked)
  moreover have "mounted s' = mounted s" using assms(2) by (simp add: timer_safe_def)
  ultimately show ?thesis using assms(1) by (simp add: commit_tracked)
qed

lemma step_tracked:
  assumes "timers_tracked s"
  shows "timers_tracked (step K ev s)"
proof (cases ev)
  case Unmount
  then show ?thesis
    using assms clear_intervals [of s] by (auto simp: timers_tracked_def)
qed (auto simp: assms segment_safe intro!: commit_safe_tracked
       split: option.splits call.splits origin.splits)

lemma run_tracked:
  "timers_tracked s \<Longrightarrow> timers_tracked (run K s evs)"
  by (induction evs arbitrary: s) (simp_all add: step_tracked)

lemma initial_tracked: "timers_tracked (initial K)"
  by (simp add: timers_tracked_def initial_def)

lemma reachable_tracked: "timers_tracked (run K (initial K) evs)"
  by (simp add: run_tracked initial_tracked)


section \<open>A live interval has a job to poll\<close>






















section \<open>What the handlers do to the timer and the job\<close>





lemma clear_locally_result:
  assumes "timers_tracked s"
  shows "intervals (clear_locally K s) = []" "currentJob (clear_locally K s) = None"
    "pollingIntervalRef (clear_locally K s) = None" "\<not> isFetchingStatus (clear_locally K s)"
    "\<not> isLoading (clear_locally K s)" "timers_tracked (clear_locally K s)"
    "mounted (clear_locally K s) = mounted s"
  using assms clear_intervals [of s]
  by (simp_all add: clear_locally_def setCurrentJob_def timers_tracked_def)

lemma tracked_upd:
  "timers_tracked s \<Longrightarrow> timers_tracked (s\<lparr>isLoading := b\<rparr>)"
  "timers_tracked s \<Longrightarrow> timers_tracked (s\<lparr>error := e\<rparr>)"
  "timers_tracked s \<Longrightarrow> timers_tracked (settle r s)"
  by (simp_all add: timers_tracked_def settle_def)

lemma clear_resume_result:
  assumes "timers_tracked s"
  shows "intervals (handleClearJob_resume K out (settle r s)) = []"
    and "currentJob (handleClearJob_resume K out (settle r s)) = None"
    and "pollingIntervalRef (handleClearJob_resume K out (settle r s)) = None"
    and "\<not> isFetchingStatus (handleClearJob_resume K out (settle r s))"
    and "\<not> isLoading (handleClearJob_resume K out (settle r s))"
    and "timers_tracked (handleClearJob_resume K out (settle r s))"
  using assms
  by (cases out; simp add: handleClearJob_resume_def clear_locally_result tracked_upd)+

lemma effect_job_none:
  assumes "timers_tracked s" "currentJob s = None"
  shows "intervals (polling_effect s) = []" "pollingIntervalRef (polling_effect s) = None"
  using assms clear_intervals [of s]
  by (simp_all add: polling_effect_def poll_target_def Let_def clear_idem)

lemma commit_cleared:
  assumes "timers_tracked s'" "intervals s' = []" "pollingIntervalRef s' = None"
    "currentJob s' = None" "\<not> isFetchingStatus s'" "\<not> isLoading s'" "mounted s"
  shows "intervals (commit s s') = []" "pollingIntervalRef (commit s s') = None"
    "currentJob (commit s s') = None" "\<not> isFetchingStatus (commit s s')"
    "\<not> isLoading (commit s s')"
  using assms effect_job_none [of s'] by (simp_all add: commit_def)

lemma cancel_settled_clears:
  assumes "timers_tracked s" "mounted s" "map_of (awaiting s) r = Some (CancelCall oid)"
  shows "currentJob (step K (CancelSettled r out) s) = None"
    and "intervals (step K (CancelSettled r out) s) = []"
    and "pollingIntervalRef (step K (CancelSettled r out) s) = None"
    and "\<not> isFetchingStatus (step K (CancelSettled r out) s)"
    and "\<not> isLoading (step K (CancelSettled r out) s)"
  using assms clear_resume_result [OF assms(1), of K out r]
  by (simp_all add: commit_cleared)


lemma click_clear_waits:
  assumes "mounted s" "\<not> clear_disabled s" "poll_target (currentJob s) = Some oid"
  shows "currentJob (step K ClickClear s) = currentJob s"
    and "intervals (step K ClickClear s) = intervals s"
    and "(next_call s, CancelCall oid) \<in> set (awaiting (step K ClickClear s))"
  using assms
  by (simp_all add: handleClearJob_def commit_def issue_def effect_deps_def split: option.splits)









lemma stored_job:
  assumes "mounted s" "map_of (awaiting s) r = Some (StatusCall og oid)"
  shows "currentJob (step K (StatusSettled r (Resolved j)) s) = Some j"
  using assms
  by (cases og)
     (simp_all add: commit_def interval_callback_resume_def handleFetchStatusManual_resume_def
        setCurrentJob_def settle_def Let_def)

section \<open>The claims\<close>

subsection \<open>The relay's status endpoint\<close>

text \<open>
  Claim C1. Whenever the relay answers a poll, the status it reports is fixed by the
  operation's \<open>done\<close> and \<open>response\<close> fields alone: \<open>done\<close> false (or left out) gives
  RUNNING, \<open>done\<close> true with a response object gives SUCCEEDED, \<open>done\<close> true with a null
  or missing response gives FAILED whatever the \<open>error\<close> field holds, and there is no
  fourth outcome. The client then holds the job details its status call resolved with, so
  the job's status is the reported one.
\<close>

theorem poll_status_from_done_and_response:
  "(getAccessToken = Resolved token
      \<and> axios_get (status_url e oid) (''Bearer '' @ token) = Resolved dat \<and> \<not> nullish dat \<longrightarrow>
      status_handler e now getAccessToken axios_get oid
        = Response 200
            (jobDetails now oid (status_of (get_prop dat ''done'') (get_prop dat ''response''))))
   \<and> get_prop (jobDetails now oid st) ''status'' = JString (status_name st)
   \<and> status_of (JBool False) r = RUNNING
   \<and> status_of JUndefined r = RUNNING
   \<and> status_of (JBool True) (JObject fs) = SUCCEEDED
   \<and> status_of (JBool True) JNull = FAILED
   \<and> status_of (JBool True) JUndefined = FAILED
   \<and> (status_of d r = RUNNING \<or> status_of d r = SUCCEEDED \<or> status_of d r = FAILED)
   \<and> (mounted s \<and> map_of (awaiting s) rq = Some (StatusCall og oid') \<longrightarrow>
        map_option status (currentJob (step K (StatusSettled rq (Resolved j)) s))
          = Some (status j))"
proof -
  have client:
    "mounted s \<and> map_of (awaiting s) rq = Some (StatusCall og oid') \<longrightarrow>
       map_option status (currentJob (step K (StatusSettled rq (Resolved j)) s))
         = Some (status j)"
    by (auto simp add: stored_job simp del: step.simps)
  have relay:
    "getAccessToken = Resolved token
       \<and> axios_get (status_url e oid) (''Bearer '' @ token) = Resolved dat \<and> \<not> nullish dat \<longrightarrow>
     status_handler e now getAccessToken axios_get oid
       = Response 200
           (jobDetails now oid (status_of (get_prop dat ''done'') (get_prop dat ''response'')))"
    by (simp add: status_handler_def)
  have field: "get_prop (jobDetails now oid st) ''status'' = JString (status_name st)"
    by (simp add: jobDetails_def)
  show ?thesis
    using client relay field by (simp add: status_of_def del: step.simps)
qed

text \<open>
  The three outcomes at the relay, for an operation that failed, one that delivered a
  video and one still running; and a client whose first poll resolves with a succeeded job.
\<close>

theorem poll_status_from_done_and_response_witness:
  "status_handler env0 7 (Resolved ''token'') (\<lambda>url auth. Resolved operation_done_error) ''op_1''
     = Response 200 (jobDetails 7 ''op_1'' FAILED)
   \<and> status_handler env0 7 (Resolved ''token'') (\<lambda>url auth. Resolved operation_done_video) ''op_1''
     = Response 200 (jobDetails 7 ''op_1'' SUCCEEDED)
   \<and> status_handler env0 7 (Resolved ''token'') (\<lambda>url auth. Resolved operation_running) ''op_1''
     = Response 200 (jobDetails 7 ''op_1'' RUNNING)
   \<and> mounted (run K0 (initial K0) session_polling)
   \<and> map_of (awaiting (run K0 (initial K0) session_polling)) 1 = Some (StatusCall Auto ''op_1'')
   \<and> map_option status
        (currentJob (step K0 (StatusSettled 1 (Resolved succeeded1))
           (run K0 (initial K0) session_polling)))
       = Some SUCCEEDED"
proof -
  have a: "mounted (run K0 (initial K0) session_polling)"
    by code_simp
  have b: "map_of (awaiting (run K0 (initial K0) session_polling)) 1
      = Some (StatusCall Auto ''op_1'')"
    by code_simp
  have n: "\<not> nullish operation_done_error" "\<not> nullish operation_done_video"
    "\<not> nullish operation_running"
    by (simp_all add: operation_done_error_def operation_done_video_def operation_running_def)
  have d:
    "status_of (get_prop operation_done_error ''done'')
       (get_prop operation_done_error ''response'') = FAILED"
    "status_of (get_prop operation_done_video ''done'')
       (get_prop operation_done_video ''response'') = SUCCEEDED"
    "status_of (get_prop operation_running ''done'')
       (get_prop operation_running ''response'') = RUNNING"
    by code_simp+
  have t: "status succeeded1 = SUCCEEDED"
    by (simp add: succeeded1_def)
  show ?thesis
    using a b n d t
      poll_status_from_done_and_response
        [where getAccessToken = "Resolved ''token''" and token = "''token''"
           and axios_get = "\<lambda>url auth. Resolved operation_done_error" and e = env0
           and oid = "''op_1''" and dat = operation_done_error and now = 7]
      poll_status_from_done_and_response
        [where getAccessToken = "Resolved ''token''" and token = "''token''"
           and axios_get = "\<lambda>url auth. Resolved operation_done_video" and e = env0
           and oid = "''op_1''" and dat = operation_done_video and now = 7]
      poll_status_from_done_and_response
        [where getAccessToken = "Resolved ''token''" and token = "''token''"
           and axios_get = "\<lambda>url auth. Resolved operation_running" and e = env0
           and oid = "''op_1''" and dat = operation_running and now = 7
           and s = "run K0 (initial K0) session_polling" and rq = 1 and og = Auto
           and oid' = "''op_1''" and K = K0 and j = succeeded1]
    by (simp del: step.simps)
qed

text \<open>
  Claim C4. The claim is that a poll finding \<open>done = true\<close> with a result stores the video
  in the job's \<open>videoBase64\<close>. For an operation that finished with a video, the relay's
  whole reply is the three fields \<open>id\<close>, \<open>operationId\<close> and \<open>status\<close>: the status is
  SUCCEEDED, and the reply has no \<open>videoBase64\<close> and nothing else of the result.
\<close>

theorem status_reply_without_video:
  "status_handler env0 7 (Resolved ''token'') (\<lambda>url auth. Resolved operation_done_video) ''op_1''
     = Response 200
         (JObject
            [(''id'', JString ''job_7''), (''operationId'', JString ''op_1''),
             (''status'', JString ''SUCCEEDED'')])
   \<and> get_prop
        (JObject
           [(''id'', JString ''job_7''), (''operationId'', JString ''op_1''),
            (''status'', JString ''SUCCEEDED'')])
        ''videoBase64'' = JUndefined"
  by code_simp

text \<open>
  Claim C5. The claim is that a poll finding \<open>done = true\<close> with an error sets the job's
  \<open>errorMessage\<close> to the remote message. For an operation that failed with
  \<open>quota exceeded\<close>, the relay's whole reply is again the three fields: the status is
  FAILED, and the reply has no \<open>errorMessage\<close> and nothing of the remote error.
\<close>

theorem status_reply_without_error_message:
  "status_handler env0 7 (Resolved ''token'') (\<lambda>url auth. Resolved operation_done_error) ''op_1''
     = Response 200
         (JObject
            [(''id'', JString ''job_7''), (''operationId'', JString ''op_1''),
             (''status'', JString ''FAILED'')])
   \<and> get_prop
        (JObject
           [(''id'', JString ''job_7''), (''operationId'', JString ''op_1''),
            (''status'', JString ''FAILED'')])
        ''errorMessage'' = JUndefined"
  by code_simp

subsection \<open>The relay's generate endpoint\<close>

text \<open>
  Claim C9. The claim is that every generate request is answered, an upstream failure by
  a 5xx with a message. With a valid body and an upstream call that rejects, the handler
  sends no response at all.
\<close>

theorem generate_unanswered_when_upstream_fails:
  "generate_handler env0 (\<lambda>request. Rejected (Some ''503 Service Unavailable''))
     body_without_image = NoResponse"
  by code_simp

text \<open>The other paths of the handler do answer: success, a missing prompt, a reply
  without an operation name.\<close>

lemma generate_answers:
  "generate_handler env0 upstream_started body_without_image
     = Response 200 (JObject [(''operationId'', JString ''op_1'')])"
  "generate_handler env0 upstream_started (JObject [(''aspectRatio'', JString ''16:9'')])
     = Response 400 (JObject [(''message'', JString ''Prompt is required'')])"
  "generate_handler env0 (\<lambda>request. Resolved (JObject [(''response'', JObject [])]))
     body_without_image
     = Response 500 (JObject [(''message'', JString ''Failed to initiate video generation'')])"
  by code_simp+



subsection \<open>The client's polling timer\<close>




subsection \<open>The client's polling guard\<close>

text \<open>
  Claim C2. The claim is that at most one status request per job is in flight, and that a
  tick firing while one is pending issues none. In the session \<open>session_overlap\<close> every
  click goes to an enabled button and every reply is one the relay can give; at its end
  two status requests for \<open>op_1\<close> are in flight at once, the second issued by a tick
  while the first was pending.
\<close>

theorem overlapping_status_requests:
  "status_requests (run K0 (initial K0) session_overlap) = [''op_1'', ''op_1'']"
  by code_simp

text \<open>
  How the session gets there. Clearing the job resets the flag while call 3 is in flight;
  the reply to call 3 and the failure of call 6 each reset it again while another request
  is pending.
\<close>

lemma overlap_steps:
  "awaiting (run K0 (initial K0) session_cancelled) = [(3, StatusCall Auto ''op_1'')]"
  "\<not> isFetchingStatus (run K0 (initial K0) session_cancelled)"
  "status_requests (run K0 (initial K0) session_replaced) = [''op_1'', ''op_2'']"
  "status_requests (run K0 (initial K0) (session_replaced @ [StatusSettled 3 (Resolved running1)]))
     = [''op_2'']"
  "\<not> isFetchingStatus
       (run K0 (initial K0) (session_replaced @ [StatusSettled 3 (Resolved running1)]))"
  "awaiting (run K0 (initial K0) session_overlap)
     = [(7, StatusCall Auto ''op_1''), (8, StatusCall Auto ''op_1'')]"
  by code_simp+

subsection \<open>Transport failure during a poll\<close>

text \<open>
  Claim C7. The claim is that a transport failure during an automatic poll shows an error,
  halts polling, leaves the job in its last status and is never retried. After the failed
  poll of \<open>session_failed_poll\<close> the error is shown and the job is still RUNNING, with no
  request in flight; but an interval is live again (handle 5), and its next tick sends a
  new status request for \<open>op_1\<close> and removes the error message.
\<close>

theorem failed_poll_restarts_polling:
  "error (run K0 (initial K0) session_failed_poll) = Some ''Network Error''
   \<and> map_option status (currentJob (run K0 (initial K0) session_failed_poll)) = Some RUNNING
   \<and> status_requests (run K0 (initial K0) session_failed_poll) = []
   \<and> map handle (intervals (run K0 (initial K0) session_failed_poll)) = [5]
   \<and> status_requests (run K0 (initial K0) (session_failed_poll @ [Tick 5])) = [''op_1'']
   \<and> error (run K0 (initial K0) (session_failed_poll @ [Tick 5])) = None"
  by code_simp

text \<open>
  The \<open>catch\<close> of the interval callback does clear the interval; the effect that follows
  creates the new one, because the flag changed and the job is still pollable.
\<close>

lemma failed_poll_catch_clears:
  "timers_tracked s \<Longrightarrow> intervals (interval_callback_resume (Rejected m) (settle r s)) = []"
  using clear_intervals [of s]
  by (simp add: interval_callback_resume_def settle_def clearPollingInterval_def
      split: option.splits)

subsection \<open>Cancellation\<close>

text \<open>
  Claim C6, as amended. Asking to cancel a job in GENERATING or RUNNING makes the cancel
  call and changes neither the job nor the interval. When that call settles, resolved or
  rejected alike, the job is cleared, no interval is live, and both flags are off. So the
  local clearing does not depend on the relay's success, but it does wait for the call to
  settle.
\<close>

theorem cancel_clears_once_call_settles:
  "s = run K (initial K) evs \<Longrightarrow> mounted s \<Longrightarrow>
     (\<not> clear_disabled s \<and> poll_target (currentJob s) = Some oid \<longrightarrow>
        currentJob (step K ClickClear s) = currentJob s
        \<and> intervals (step K ClickClear s) = intervals s
        \<and> (next_call s, CancelCall oid) \<in> set (awaiting (step K ClickClear s)))
   \<and> (map_of (awaiting s) r = Some (CancelCall oid') \<longrightarrow>
        currentJob (step K (CancelSettled r out) s) = None
        \<and> intervals (step K (CancelSettled r out) s) = []
        \<and> pollingIntervalRef (step K (CancelSettled r out) s) = None
        \<and> \<not> isFetchingStatus (step K (CancelSettled r out) s)
        \<and> \<not> isLoading (step K (CancelSettled r out) s))"
proof -
  assume "s = run K (initial K) evs" and m: "mounted s"
  then have t: "timers_tracked s"
    by (simp add: reachable_tracked)
  have waits:
    "\<not> clear_disabled s \<and> poll_target (currentJob s) = Some oid \<longrightarrow>
       currentJob (step K ClickClear s) = currentJob s
       \<and> intervals (step K ClickClear s) = intervals s
       \<and> (next_call s, CancelCall oid) \<in> set (awaiting (step K ClickClear s))"
    using m click_clear_waits by blast
  have settles:
    "map_of (awaiting s) r = Some (CancelCall oid') \<longrightarrow>
       currentJob (step K (CancelSettled r out) s) = None
       \<and> intervals (step K (CancelSettled r out) s) = []
       \<and> pollingIntervalRef (step K (CancelSettled r out) s) = None
       \<and> \<not> isFetchingStatus (step K (CancelSettled r out) s)
       \<and> \<not> isLoading (step K (CancelSettled r out) s)"
  proof (intro impI)
    assume a: "map_of (awaiting s) r = Some (CancelCall oid')"
    show "currentJob (step K (CancelSettled r out) s) = None
        \<and> intervals (step K (CancelSettled r out) s) = []
        \<and> pollingIntervalRef (step K (CancelSettled r out) s) = None
        \<and> \<not> isFetchingStatus (step K (CancelSettled r out) s)
        \<and> \<not> isLoading (step K (CancelSettled r out) s)"
      using cancel_settled_clears [OF t m a, of K out] by (simp del: step.simps)
  qed
  show ?thesis
    using waits settles by blast
qed

text \<open>
  Claim C6 as stated fails: it has the job cleared at once, without waiting for the relay.
  In \<open>session_cancelling\<close> the user has asked to cancel the running job \<open>op_1\<close> and the
  cancel call is in flight: the job is still there, the interval is still live, and its
  next tick sends another status request.
\<close>

theorem cancel_waits_for_relay:
  "poll_target (currentJob (run K0 (initial K0) session_failed_poll)) = Some ''op_1''
   \<and> \<not> clear_disabled (run K0 (initial K0) session_failed_poll)
   \<and> awaiting (run K0 (initial K0) session_cancelling) = [(3, CancelCall ''op_1'')]
   \<and> currentJob (run K0 (initial K0) session_cancelling) = Some running1
   \<and> map handle (intervals (run K0 (initial K0) session_cancelling)) = [5]
   \<and> status_requests (run K0 (initial K0) (session_cancelling @ [Tick 5])) = [''op_1'']"
  by code_simp

text \<open>The same session under the amended claim, with the cancel call resolved and
  rejected.\<close>

theorem cancel_clears_once_call_settles_witness:
  "mounted (run K0 (initial K0) session_failed_poll)
   \<and> \<not> clear_disabled (run K0 (initial K0) session_failed_poll)
   \<and> poll_target (currentJob (run K0 (initial K0) session_failed_poll)) = Some ''op_1''
   \<and> currentJob (step K0 ClickClear (run K0 (initial K0) session_failed_poll))
       = currentJob (run K0 (initial K0) session_failed_poll)
   \<and> intervals (step K0 ClickClear (run K0 (initial K0) session_failed_poll))
       = intervals (run K0 (initial K0) session_failed_poll)
   \<and> mounted (run K0 (initial K0) session_cancelling)
   \<and> map_of (awaiting (run K0 (initial K0) session_cancelling)) 3 = Some (CancelCall ''op_1'')
   \<and> currentJob (run K0 (initial K0) session_cancelling) \<noteq> None
   \<and> currentJob (step K0 (CancelSettled 3 (Resolved ()))
        (run K0 (initial K0) session_cancelling)) = None
   \<and> intervals (step K0 (CancelSettled 3 (Resolved ()))
        (run K0 (initial K0) session_cancelling)) = []
   \<and> currentJob (step K0 (CancelSettled 3 (Rejected (Some ''Network Error'')))
        (run K0 (initial K0) session_cancelling)) = None
   \<and> intervals (step K0 (CancelSettled 3 (Rejected (Some ''Network Error'')))
        (run K0 (initial K0) session_cancelling)) = []"
proof -
  have a: "mounted (run K0 (initial K0) session_failed_poll)"
    "\<not> clear_disabled (run K0 (initial K0) session_failed_poll)"
    "poll_target (currentJob (run K0 (initial K0) session_failed_poll)) = Some ''op_1''"
    by code_simp+
  have b: "mounted (run K0 (initial K0) session_cancelling)"
    "map_of (awaiting (run K0 (initial K0) session_cancelling)) 3 = Some (CancelCall ''op_1'')"
    "currentJob (run K0 (initial K0) session_cancelling) \<noteq> None"
    by code_simp+
  show ?thesis
    using a b
      cancel_clears_once_call_settles [OF refl a(1), where oid = "''op_1''"]
      cancel_clears_once_call_settles
        [OF refl b(1), where r = 3 and oid' = "''op_1''" and out = "Resolved ()"]
      cancel_clears_once_call_settles
        [OF refl b(1), where r = 3 and oid' = "''op_1''"
           and out = "Rejected (Some ''Network Error'')"]
    by (simp del: step.simps run.simps)
qed

subsection \<open>Responses that arrive late\<close>

text \<open>
  Claim C8, as amended. A response to a status request is never discarded: when it
  arrives at the mounted component, the job details it carries become the current job,
  whatever the current job is and whichever operation the request was made for. No
  operation id is compared.
\<close>

theorem status_response_always_stored:
  "mounted s \<Longrightarrow> map_of (awaiting s) r = Some (StatusCall og oid) \<Longrightarrow>
   currentJob (step K (StatusSettled r (Resolved j)) s) = Some j"
  by (rule stored_job)

text \<open>
  Claim C8 as stated fails: it has a late response discarded unless it is for the current
  job's operation. After the cancellation of \<open>session_cancelled\<close> there is no job, and the
  response to call 3, made for \<open>op_1\<close> before the cancellation, brings one back. After
  the replacement of \<open>session_replaced\<close> the current job is \<open>op_2\<close>, and the same
  response puts the job of \<open>op_1\<close> in its place.
\<close>

theorem stale_response_replaces_job:
  "currentJob (run K0 (initial K0) session_cancelled) = None
   \<and> map_of (awaiting (run K0 (initial K0) session_cancelled)) 3 = Some (StatusCall Auto ''op_1'')
   \<and> currentJob (run K0 (initial K0) (session_cancelled @ [StatusSettled 3 (Resolved running1)]))
       = Some running1
   \<and> map_option operationId (currentJob (run K0 (initial K0) session_replaced))
       = Some (Some ''op_2'')
   \<and> map_of (awaiting (run K0 (initial K0) session_replaced)) 3 = Some (StatusCall Auto ''op_1'')
   \<and> map_option operationId
        (currentJob (run K0 (initial K0) (session_replaced @ [StatusSettled 3 (Resolved running1)])))
       = Some (Some ''op_1'')"
  by code_simp

text \<open>The amended claim at the replaced job.\<close>

theorem status_response_always_stored_witness:
  "mounted (run K0 (initial K0) session_replaced)
   \<and> map_of (awaiting (run K0 (initial K0) session_replaced)) 3 = Some (StatusCall Auto ''op_1'')
   \<and> map_option operationId (currentJob (run K0 (initial K0) session_replaced))
       = Some (Some ''op_2'')
   \<and> currentJob (step K0 (StatusSettled 3 (Resolved running1))
        (run K0 (initial K0) session_replaced)) = Some running1"
proof -
  have a: "mounted (run K0 (initial K0) session_replaced)"
    by code_simp
  have b: "map_of (awaiting (run K0 (initial K0) session_replaced)) 3
      = Some (StatusCall Auto ''op_1'')"
    by code_simp
  have c: "map_option operationId (currentJob (run K0 (initial K0) session_replaced))
      = Some (Some ''op_2'')"
    by code_simp
  show ?thesis
    using a b c status_response_always_stored [OF a b, of K0 running1]
    by (simp del: step.simps run.simps)
qed

end
